theory Spec2Isabelle
  imports Main "HOL-Library.Word"
begin

section \<open>The HTTP transport of the consensus RPCs (package rafthttp, http.go)\<close>

text \<open>
  The transport is one Go file. It calls three libraries: \<^verbatim>\<open>net/http\<close> (the network),
  \<^verbatim>\<open>encoding/json\<close> (the wire codec) and package \<^verbatim>\<open>raft\<close> (the consensus engine and its
  message types). The functions of the file are embedded below line by line. What the
  libraries do is an argument of each function: the network is a function from the request
  issued to what comes back, the codec of a Go type is its encoder, its decoder and its zero
  value. A second part models \<^verbatim>\<open>encoding/json\<close> for the few Go types the file names itself
  (\<^verbatim>\<open>uint64\<close>, \<^verbatim>\<open>bytes.Buffer\<close>) and for the reply structs; it is used to run the functions on
  concrete traffic.
\<close>

subsection \<open>Bytes, route constants\<close>

type_synonym bytes = string

definition IdPath :: string where
  "IdPath = ''/raft/id''"

definition AppendEntriesPath :: string where
  "AppendEntriesPath = ''/raft/appendentries''"

definition RequestVotePath :: string where
  "RequestVotePath = ''/raft/requestvote''"

definition CommandPath :: string where
  "CommandPath = ''/raft/command''"

subsection \<open>What the transport sees of net/url and net/http\<close>

text \<open>
  \<^verbatim>\<open>url.URL\<close> is a struct of strings (and an optional user); the transport reads and writes
  only \<^verbatim>\<open>Path\<close> and copies the rest.
\<close>

record URL =
  Scheme :: string
  Opaque :: string
  User :: "(string \<times> string option) option"
  Host :: string
  Path :: string
  RawQuery :: string
  Fragment :: string

text \<open>
  An outgoing request, as \<^verbatim>\<open>http.Get\<close> and \<^verbatim>\<open>http.Post\<close> receive it. The Go code hands over
  \<^verbatim>\<open>u.String()\<close>; the request keeps the URL value that is rendered, so a network that looks at
  the rendered string is a network that looks at this value.
\<close>

record request =
  req_Method :: string
  req_URL :: URL
  req_ContentType :: string
  req_Body :: bytes

record Response =
  StatusCode :: int
  Body :: bytes

text \<open>The network: \<^verbatim>\<open>Inl\<close> is the error of \<^verbatim>\<open>http.Get\<close>/\<^verbatim>\<open>http.Post\<close> (connection refused,
  timeout, DNS failure), \<^verbatim>\<open>Inr\<close> the response received.\<close>

type_synonym network = "request \<Rightarrow> string + Response"

definition StatusOK :: int where
  "StatusOK = 200"

definition StatusBadRequest :: int where
  "StatusBadRequest = 400"

definition StatusInternalServerError :: int where
  "StatusInternalServerError = 500"

subsection \<open>What the transport sees of encoding/json\<close>

text \<open>
  \<^verbatim>\<open>Encode\<close> returns the bytes written or an error. \<^verbatim>\<open>Decode\<close> writes through a pointer: it
  takes the bytes and the target as it stands, and returns the target as it leaves it
  together with the error, if any. A decoder that fails may have written part of the target.
\<close>

type_synonym 'a encoder = "'a \<Rightarrow> string + bytes"

type_synonym 'a decoder = "bytes \<Rightarrow> 'a \<Rightarrow> 'a \<times> string option"

subsection \<open>Errors\<close>

text \<open>
  Go's \<^verbatim>\<open>error\<close> values, told apart by where they come from: the encoder, the network, the
  status check of \<^verbatim>\<open>rpc\<close> (\<^verbatim>\<open>fmt.Errorf("HTTP %d", resp.StatusCode)\<close>), the decoder.
\<close>

datatype error =
  EncodeError string
  | NetworkError string
  | StatusError int
  | DecodeError string

subsection \<open>The peer client\<close>

text \<open>The fields \<^verbatim>\<open>id\<close> and \<^verbatim>\<open>url\<close> of \<^verbatim>\<open>HTTPPeer\<close>.\<close>

record HTTPPeer =
  peer_id :: "64 word"
  peer_url :: URL

text \<open>What a call leaves behind: the requests it issued, in order, and what it returned.\<close>

record 'v effect =
  sent :: "request list"
  ret :: 'v

definition NewHTTPPeer :: "network \<Rightarrow> 64 word decoder \<Rightarrow> URL \<Rightarrow> (error + HTTPPeer) effect" where
  "NewHTTPPeer net dec u0 =
     (let u = u0\<lparr>Path := ''''\<rparr>;
          idUrl = u\<lparr>Path := IdPath\<rparr>;
          get = \<lparr>req_Method = ''GET'', req_URL = idUrl, req_ContentType = '''', req_Body = ''''\<rparr>
      in case net get of
           Inl e \<Rightarrow> \<lparr>sent = [get], ret = Inl (NetworkError e)\<rparr>
         | Inr resp \<Rightarrow>
             (case dec (Body resp) 0 of
                (i, Some e) \<Rightarrow> \<lparr>sent = [get], ret = Inl (DecodeError e)\<rparr>
              | (i, None) \<Rightarrow> \<lparr>sent = [get], ret = Inr \<lparr>peer_id = i, peer_url = u\<rparr>\<rparr>))"

definition Id :: "HTTPPeer \<Rightarrow> 64 word" where
  "Id p = peer_id p"

text \<open>
  \<^verbatim>\<open>rpc\<close> has a pointer receiver and a pointer to the response. Its result holds the
  receiver and the response as the call leaves them, the requests issued and the error
  returned.
\<close>

record 'r rpc_result =
  rpc_peer :: HTTPPeer
  rpc_sent :: "request list"
  rpc_err :: "error option"
  rpc_response :: 'r

definition rpc :: "network \<Rightarrow> 'a encoder \<Rightarrow> 'r decoder \<Rightarrow> HTTPPeer \<Rightarrow> 'a \<Rightarrow> string \<Rightarrow> 'r \<Rightarrow> 'r rpc_result" where
  "rpc net enc dec p request path response =
     (case enc request of
        Inl e \<Rightarrow>
          \<lparr>rpc_peer = p, rpc_sent = [], rpc_err = Some (EncodeError e), rpc_response = response\<rparr>
      | Inr body \<Rightarrow>
          (let url = (peer_url p)\<lparr>Path := path\<rparr>;
               post = \<lparr>req_Method = ''POST'', req_URL = url,
                       req_ContentType = ''application/json'', req_Body = body\<rparr>
           in case net post of
                Inl e \<Rightarrow>
                  \<lparr>rpc_peer = p, rpc_sent = [post], rpc_err = Some (NetworkError e),
                   rpc_response = response\<rparr>
              | Inr resp \<Rightarrow>
                  if StatusCode resp \<noteq> StatusOK then
                    \<lparr>rpc_peer = p, rpc_sent = [post], rpc_err = Some (StatusError (StatusCode resp)),
                     rpc_response = response\<rparr>
                  else
                    (case dec (Body resp) response of
                       (response', Some e) \<Rightarrow>
                         \<lparr>rpc_peer = p, rpc_sent = [post], rpc_err = Some (DecodeError e),
                          rpc_response = response'\<rparr>
                     | (response', None) \<Rightarrow>
                         \<lparr>rpc_peer = p, rpc_sent = [post], rpc_err = None,
                          rpc_response = response'\<rparr>)))"

text \<open>What a method of the peer leaves behind: the receiver after the call, the requests
  issued, and the value returned.\<close>

record 'v call =
  receiver :: HTTPPeer
  issued :: "request list"
  result :: 'v

text \<open>
  \<^verbatim>\<open>AppendEntries\<close> and \<^verbatim>\<open>RequestVote\<close> declare the reply (\<^verbatim>\<open>var aer ...\<close>: the zero value of
  its type, the argument \<open>zero\<close>), let \<^verbatim>\<open>rpc\<close> write it, drop the error and return the reply.
\<close>

definition AppendEntries ::
  "network \<Rightarrow> 'ae encoder \<Rightarrow> 'aer decoder \<Rightarrow> 'aer \<Rightarrow> HTTPPeer \<Rightarrow> 'ae \<Rightarrow> 'aer call" where
  "AppendEntries net enc dec zero p ae =
     (let aer = zero;
          r = rpc net enc dec p ae AppendEntriesPath aer
      in \<lparr>receiver = rpc_peer r, issued = rpc_sent r, result = rpc_response r\<rparr>)"

definition RequestVote ::
  "network \<Rightarrow> 'rv encoder \<Rightarrow> 'rvr decoder \<Rightarrow> 'rvr \<Rightarrow> HTTPPeer \<Rightarrow> 'rv \<Rightarrow> 'rvr call" where
  "RequestVote net enc dec zero p rv =
     (let rvr = zero;
          r = rpc net enc dec p rv RequestVotePath rvr
      in \<lparr>receiver = rpc_peer r, issued = rpc_sent r, result = rpc_response r\<rparr>)"

text \<open>
  \<^verbatim>\<open>bytes.Buffer\<close>: the bytes held and the read offset; \<^verbatim>\<open>Bytes\<close> and \<^verbatim>\<open>String\<close> give the unread
  part, \<^verbatim>\<open>Write\<close> appends. Both fields are unexported.
\<close>

record Buffer =
  buf :: bytes
  off :: nat

definition empty_Buffer :: Buffer where
  "empty_Buffer = \<lparr>buf = [], off = 0\<rparr>"

definition Bytes :: "Buffer \<Rightarrow> bytes" where
  "Bytes b = drop (off b) (buf b)"

definition String :: "Buffer \<Rightarrow> string" where
  "String b = drop (off b) (buf b)"

definition Buffer_Write :: "Buffer \<Rightarrow> bytes \<Rightarrow> Buffer" where
  "Buffer_Write b bs = b\<lparr>buf := buf b @ bs\<rparr>"

text \<open>
  A channel of byte slices, and what one party does to it over time. \<^verbatim>\<open>Command\<close> starts a
  goroutine and returns \<^verbatim>\<open>nil\<close>; the goroutine is given by what it does when it runs: the
  requests it issues and its operations on the caller's channel, in order.
\<close>

datatype chan_op = ChanSend bytes | ChanClose

record goroutine =
  go_sent :: "request list"
  go_ops :: "chan_op list"

definition Command ::
  "network \<Rightarrow> bytes encoder \<Rightarrow> Buffer decoder \<Rightarrow> HTTPPeer \<Rightarrow> bytes
     \<Rightarrow> (error option \<times> goroutine) call" where
  "Command net enc dec p cmd =
     (let responseBuf = empty_Buffer;
          r = rpc net enc dec p cmd CommandPath responseBuf;
          g = \<lparr>go_sent = rpc_sent r, go_ops = [ChanSend (Bytes (rpc_response r))]\<rparr>
      in \<lparr>receiver = rpc_peer r, issued = [], result = (None, g)\<rparr>)"

text \<open>
  A caller of the peer: it makes calls one after the other, each against the network as it
  is at that moment, on the peer as the call before left it. \<open>requests_of\<close> lists the
  requests of all calls in order, those of a command's goroutine at the place of the call.
\<close>

datatype ('ae, 'rv) rpc_call =
  CallAppendEntries 'ae
  | CallRequestVote 'rv
  | CallCommand bytes

record ('ae, 'aer, 'rv, 'rvr) codecs =
  enc_ae :: "'ae encoder"
  dec_aer :: "'aer decoder"
  zero_aer :: 'aer
  enc_rv :: "'rv encoder"
  dec_rvr :: "'rvr decoder"
  zero_rvr :: 'rvr
  enc_cmd :: "bytes encoder"
  dec_buf :: "Buffer decoder"

definition path_of :: "('ae, 'rv) rpc_call \<Rightarrow> string" where
  "path_of c = (case c of CallAppendEntries _ \<Rightarrow> AppendEntriesPath
                | CallRequestVote _ \<Rightarrow> RequestVotePath
                | CallCommand _ \<Rightarrow> CommandPath)"

definition perform ::
  "('ae, 'aer, 'rv, 'rvr) codecs \<Rightarrow> network \<Rightarrow> HTTPPeer \<Rightarrow> ('ae, 'rv) rpc_call
     \<Rightarrow> HTTPPeer \<times> request list" where
  "perform js net p c =
     (case c of
        CallAppendEntries ae \<Rightarrow>
          (let r = AppendEntries net (enc_ae js) (dec_aer js) (zero_aer js) p ae
           in (receiver r, issued r))
      | CallRequestVote rv \<Rightarrow>
          (let r = RequestVote net (enc_rv js) (dec_rvr js) (zero_rvr js) p rv
           in (receiver r, issued r))
      | CallCommand cmd \<Rightarrow>
          (let r = Command net (enc_cmd js) (dec_buf js) p cmd
           in (receiver r, issued r @ go_sent (snd (result r)))))"

fun requests_of ::
  "('ae, 'aer, 'rv, 'rvr) codecs \<Rightarrow> HTTPPeer \<Rightarrow> (network \<times> ('ae, 'rv) rpc_call) list
     \<Rightarrow> request list" where
  "requests_of js p [] = []"
| "requests_of js p ((net, c) # cs) =
     (let (p', rs) = perform js net p c in rs @ requests_of js p' cs)"

subsection \<open>The transport server\<close>

text \<open>
  The consensus engine, \<^verbatim>\<open>raft.Server\<close>, through the four methods the transport calls.
  \<^verbatim>\<open>Command\<close> takes the payload and the reply channel; it returns its error, and the engine's
  operations on the channel follow, in order (none at all when the engine stalls).
\<close>

record ('ae, 'aer, 'rv, 'rvr) Server =
  srv_Id :: "64 word"
  srv_AppendEntries :: "'ae \<Rightarrow> 'aer"
  srv_RequestVote :: "'rv \<Rightarrow> 'rvr"
  srv_Command :: "bytes \<Rightarrow> string option \<times> chan_op list"

record ('ae, 'aer, 'rv, 'rvr) HTTPServer =
  server :: "('ae, 'aer, 'rv, 'rvr) Server"

definition NewHTTPServer :: "('ae, 'aer, 'rv, 'rvr) Server \<Rightarrow> ('ae, 'aer, 'rv, 'rvr) HTTPServer" where
  "NewHTTPServer srv = \<lparr>server = srv\<rparr>"

text \<open>An incoming request: reading its body fails (\<^verbatim>\<open>Inl\<close>) or gives the bytes.\<close>

record Request =
  r_Body :: "string + bytes"

definition ReadAll :: "string + bytes \<Rightarrow> string + bytes" where
  "ReadAll body = body"

definition Decode_from :: "'a decoder \<Rightarrow> string + bytes \<Rightarrow> 'a \<Rightarrow> 'a \<times> string option" where
  "Decode_from dec body target =
     (case body of Inl e \<Rightarrow> (target, Some e) | Inr bs \<Rightarrow> dec bs target)"

text \<open>
  \<^verbatim>\<open>http.ResponseWriter\<close>: the status line is written once, by \<^verbatim>\<open>WriteHeader\<close> or by the
  first \<^verbatim>\<open>Write\<close> (then with 200); \<^verbatim>\<open>http.Error\<close> writes the status and then the message
  with \<^verbatim>\<open>fmt.Fprintln\<close>, that is, followed by a newline. Headers are left out.
\<close>

record ResponseWriter =
  wroteHeader :: bool
  status :: int
  written :: bytes

definition new_ResponseWriter :: ResponseWriter where
  "new_ResponseWriter = \<lparr>wroteHeader = False, status = 0, written = []\<rparr>"

definition WriteHeader :: "ResponseWriter \<Rightarrow> int \<Rightarrow> ResponseWriter" where
  "WriteHeader w code = (if wroteHeader w then w else w\<lparr>wroteHeader := True, status := code\<rparr>)"

definition Write :: "ResponseWriter \<Rightarrow> bytes \<Rightarrow> ResponseWriter" where
  "Write w bs = (let w' = WriteHeader w StatusOK in w'\<lparr>written := written w' @ bs\<rparr>)"

definition newline :: char where
  "newline = CHR 0x0A"

definition http_Error :: "ResponseWriter \<Rightarrow> string \<Rightarrow> int \<Rightarrow> ResponseWriter" where
  "http_Error w msg code = Write (WriteHeader w code) (msg @ [newline])"

text \<open>The response a handler leaves, as the client reads it.\<close>

definition response_of :: "ResponseWriter \<Rightarrow> Response" where
  "response_of w = (let w' = WriteHeader w StatusOK in \<lparr>StatusCode = status w', Body = written w'\<rparr>)"

text \<open>\<^verbatim>\<open>fmt.Sprint\<close> of a \<^verbatim>\<open>uint64\<close>: its decimal digits.\<close>

definition digit_char :: "nat \<Rightarrow> char" where
  "digit_char d = ''0123456789'' ! d"

fun decimal :: "nat \<Rightarrow> string" where
  "decimal n =
     (if n < 10 then [digit_char n] else decimal (n div 10) @ [digit_char (n mod 10)])"

declare decimal.simps [simp del]

definition Sprint_uint64 :: "64 word \<Rightarrow> string" where
  "Sprint_uint64 n = decimal (unat n)"

text \<open>The two package variables, and \<^verbatim>\<open>init\<close>, which writes the encoding of the zero reply
  of each kind into its buffer and drops the encoder's error.\<close>

record globals =
  emptyAppendEntriesResponse :: Buffer
  emptyRequestVoteResponse :: Buffer

definition Encode_to :: "'a encoder \<Rightarrow> 'a \<Rightarrow> Buffer \<Rightarrow> Buffer" where
  "Encode_to enc v b = (case enc v of Inl e \<Rightarrow> b | Inr bs \<Rightarrow> Buffer_Write b bs)"

definition init :: "'aer encoder \<Rightarrow> 'aer \<Rightarrow> 'rvr encoder \<Rightarrow> 'rvr \<Rightarrow> globals" where
  "init enc_a zero_a enc_r zero_r =
     \<lparr>emptyAppendEntriesResponse = Encode_to enc_a zero_a empty_Buffer,
      emptyRequestVoteResponse = Encode_to enc_r zero_r empty_Buffer\<rparr>"

definition idHandler ::
  "('ae, 'aer, 'rv, 'rvr) HTTPServer \<Rightarrow> Request \<Rightarrow> ResponseWriter \<Rightarrow> ResponseWriter" where
  "idHandler s r w = Write w (Sprint_uint64 (srv_Id (server s)))"

definition appendEntriesHandler ::
  "globals \<Rightarrow> 'ae decoder \<Rightarrow> 'ae \<Rightarrow> 'aer encoder \<Rightarrow> ('ae, 'aer, 'rv, 'rvr) HTTPServer
     \<Rightarrow> Request \<Rightarrow> ResponseWriter \<Rightarrow> ResponseWriter" where
  "appendEntriesHandler g dec zero enc s r w =
     (case Decode_from dec (r_Body r) zero of
        (ae, Some e) \<Rightarrow>
          http_Error w (String (emptyAppendEntriesResponse g)) StatusBadRequest
      | (ae, None) \<Rightarrow>
          (let aer = srv_AppendEntries (server s) ae
           in case enc aer of
                Inl e \<Rightarrow>
                  http_Error w (String (emptyAppendEntriesResponse g)) StatusInternalServerError
              | Inr bs \<Rightarrow> Write w bs))"

definition requestVoteHandler ::
  "globals \<Rightarrow> 'rv decoder \<Rightarrow> 'rv \<Rightarrow> 'rvr encoder \<Rightarrow> ('ae, 'aer, 'rv, 'rvr) HTTPServer
     \<Rightarrow> Request \<Rightarrow> ResponseWriter \<Rightarrow> ResponseWriter" where
  "requestVoteHandler g dec zero enc s r w =
     (case Decode_from dec (r_Body r) zero of
        (rv, Some e) \<Rightarrow>
          http_Error w (String (emptyRequestVoteResponse g)) StatusBadRequest
      | (rv, None) \<Rightarrow>
          (let rvr = srv_RequestVote (server s) rv
           in case enc rvr of
                Inl e \<Rightarrow>
                  http_Error w (String (emptyRequestVoteResponse g)) StatusInternalServerError
              | Inr bs \<Rightarrow> Write w bs))"

text \<open>
  The reply channel of the command route, \<^verbatim>\<open>make(chan []byte, 1)\<close>, and the receive
  \<^verbatim>\<open>resp, ok := <-response\<close>: it takes the first value buffered, or reports a closed empty
  channel with \<^verbatim>\<open>ok = false\<close>, or waits for the engine's next operation. When the engine
  does nothing more the receive never returns: \<open>None\<close>.
\<close>

record chan =
  chan_cap :: nat
  chan_buf :: "bytes list"
  chan_closed :: bool

definition make_chan :: "nat \<Rightarrow> chan" where
  "make_chan n = \<lparr>chan_cap = n, chan_buf = [], chan_closed = False\<rparr>"

fun chan_apply :: "chan_op \<Rightarrow> chan \<Rightarrow> chan" where
  "chan_apply (ChanSend v) ch = ch\<lparr>chan_buf := chan_buf ch @ [v]\<rparr>"
| "chan_apply ChanClose ch = ch\<lparr>chan_closed := True\<rparr>"

definition ready :: "chan \<Rightarrow> (bytes \<times> bool) option" where
  "ready ch =
     (case chan_buf ch of
        v # vs \<Rightarrow> Some (v, True)
      | [] \<Rightarrow> if chan_closed ch then Some ([], False) else None)"

fun recv :: "chan \<Rightarrow> chan_op list \<Rightarrow> (bytes \<times> bool) option" where
  "recv ch [] = ready ch"
| "recv ch (op # ops) =
     (case ready ch of Some x \<Rightarrow> Some x | None \<Rightarrow> recv (chan_apply op ch) ops)"

definition commandHandler ::
  "('ae, 'aer, 'rv, 'rvr) HTTPServer \<Rightarrow> Request \<Rightarrow> ResponseWriter \<Rightarrow> ResponseWriter option" where
  "commandHandler s r w =
     (case ReadAll (r_Body r) of
        Inl e \<Rightarrow> Some (http_Error w '''' StatusBadRequest)
      | Inr cmd \<Rightarrow>
          (let response = make_chan 1
           in case srv_Command (server s) cmd of
                (Some e, ops) \<Rightarrow> Some (http_Error w '''' StatusInternalServerError)
              | (None, ops) \<Rightarrow>
                  (case recv response ops of
                     None \<Rightarrow> None
                   | Some (resp, ok) \<Rightarrow>
                       if \<not> ok then Some (http_Error w '''' StatusInternalServerError)
                       else Some (Write w resp))))"

subsection \<open>encoding/json on the Go types the transport uses\<close>

text \<open>
  What \<^verbatim>\<open>json.NewDecoder(r).Decode(v)\<close> and \<^verbatim>\<open>json.NewEncoder(w).Encode(v)\<close> do for a target
  \<^verbatim>\<open>v\<close> of type \<^verbatim>\<open>uint64\<close> (the identity), \<^verbatim>\<open>bytes.Buffer\<close> (the command reply), \<^verbatim>\<open>[]byte\<close>
  (the command) and for structs of \<^verbatim>\<open>uint64\<close> and \<^verbatim>\<open>bool\<close> fields (the replies).

  The decoder reads the first JSON value of the stream and leaves what follows it unread.
  \<open>parse_value\<close> follows the grammar the library's scanner accepts; string contents are kept
  as they are written, escapes included. Its first argument bounds the depth of the nested
  calls and is set to the length of the input plus one; a value that needs more is not
  complete within the input, and is refused like any other incomplete value.
\<close>

datatype json =
  JNull
  | JBool bool
  | JNumber string
  | JString string
  | JArray "json list"
  | JObject "(string \<times> json) list"

definition dquote :: char where
  "dquote = CHR 0x22"

definition backslash :: char where
  "backslash = CHR 0x5C"

definition isSpace :: "char \<Rightarrow> bool" where
  "isSpace c = (c = CHR 0x20 \<or> c = CHR 0x09 \<or> c = CHR 0x0D \<or> c = CHR 0x0A)"

definition isDigit :: "char \<Rightarrow> bool" where
  "isDigit c = (48 \<le> (of_char c :: nat) \<and> (of_char c :: nat) \<le> 57)"

definition isHex :: "char \<Rightarrow> bool" where
  "isHex c = (isDigit c \<or> (65 \<le> (of_char c :: nat) \<and> (of_char c :: nat) \<le> 70)
               \<or> (97 \<le> (of_char c :: nat) \<and> (of_char c :: nat) \<le> 102))"

definition skipSpace :: "string \<Rightarrow> string" where
  "skipSpace s = dropWhile isSpace s"

text \<open>A string literal, after its opening quote: the contents and what follows the
  closing quote.\<close>

fun scan_string :: "string \<Rightarrow> (string \<times> string) option" where
  "scan_string [] = None"
| "scan_string (c # cs) =
     (if c = dquote then Some ([], cs)
      else if c = backslash then
        (case cs of
           [] \<Rightarrow> None
         | e # es \<Rightarrow>
             if e \<in> set [dquote, backslash, CHR ''/'', CHR ''b'', CHR ''f'', CHR ''n'', CHR ''r'', CHR ''t'']
             then (case scan_string es of
                     None \<Rightarrow> None
                   | Some (lit, rest) \<Rightarrow> Some (c # e # lit, rest))
             else if e = CHR ''u'' \<and> 4 \<le> length es \<and> list_all isHex (take 4 es)
             then (case scan_string es of
                     None \<Rightarrow> None
                   | Some (lit, rest) \<Rightarrow> Some (c # e # lit, rest))
             else None)
      else if (of_char c :: nat) < 32 then None
      else (case scan_string cs of
              None \<Rightarrow> None
            | Some (lit, rest) \<Rightarrow> Some (c # lit, rest)))"

text \<open>A number literal: an optional minus, \<^verbatim>\<open>0\<close> or a digit string that does not start with
  \<^verbatim>\<open>0\<close>, an optional fraction, an optional exponent.\<close>

definition scan_int :: "string \<Rightarrow> (string \<times> string) option" where
  "scan_int s =
     (case s of
        [] \<Rightarrow> None
      | c # cs \<Rightarrow>
          if c = CHR ''0'' then Some ([c], cs)
          else if isDigit c then Some (c # takeWhile isDigit cs, dropWhile isDigit cs)
          else None)"

definition scan_frac :: "string \<Rightarrow> (string \<times> string) option" where
  "scan_frac s =
     (case s of
        [] \<Rightarrow> Some ([], s)
      | c # cs \<Rightarrow>
          if c = CHR ''.'' then
            (case takeWhile isDigit cs of
               [] \<Rightarrow> None
             | d # ds \<Rightarrow> Some (c # d # ds, dropWhile isDigit cs))
          else Some ([], s))"

definition scan_exp :: "string \<Rightarrow> (string \<times> string) option" where
  "scan_exp s =
     (case s of
        [] \<Rightarrow> Some ([], s)
      | c # cs \<Rightarrow>
          if c = CHR ''e'' \<or> c = CHR ''E'' then
            (let (sign, r) =
               (case cs of
                  [] \<Rightarrow> ([], cs)
                | d # ds \<Rightarrow> if d = CHR ''+'' \<or> d = CHR ''-'' then ([d], ds) else ([], cs))
             in case takeWhile isDigit r of
                  [] \<Rightarrow> None
                | d # ds \<Rightarrow> Some (c # sign @ d # ds, dropWhile isDigit r))
          else Some ([], s))"

definition scan_number :: "string \<Rightarrow> (string \<times> string) option" where
  "scan_number s =
     (let (sign, r0) =
        (case s of
           [] \<Rightarrow> ([], s)
         | c # cs \<Rightarrow> if c = CHR ''-'' then ([c], cs) else ([], s))
      in case scan_int r0 of
           None \<Rightarrow> None
         | Some (i, r1) \<Rightarrow>
             (case scan_frac r1 of
                None \<Rightarrow> None
              | Some (f, r2) \<Rightarrow>
                  (case scan_exp r2 of
                     None \<Rightarrow> None
                   | Some (e, r3) \<Rightarrow> Some (sign @ i @ f @ e, r3))))"

text \<open>A value that is not an object or an array: a string, \<^verbatim>\<open>true\<close>, \<^verbatim>\<open>false\<close>, \<^verbatim>\<open>null\<close> or
  a number.\<close>

definition scan_scalar :: "string \<Rightarrow> (json \<times> string) option" where
  "scan_scalar s =
     (case s of
        [] \<Rightarrow> None
      | c # cs \<Rightarrow>
          if c = dquote then
            (case scan_string cs of
               None \<Rightarrow> None
             | Some (lit, rest) \<Rightarrow> Some (JString lit, rest))
          else if c = CHR ''t'' then
            (if take 3 cs = ''rue'' then Some (JBool True, drop 3 cs) else None)
          else if c = CHR ''f'' then
            (if take 4 cs = ''alse'' then Some (JBool False, drop 4 cs) else None)
          else if c = CHR ''n'' then
            (if take 3 cs = ''ull'' then Some (JNull, drop 3 cs) else None)
          else
            (case scan_number (c # cs) of
               None \<Rightarrow> None
             | Some (lit, rest) \<Rightarrow> Some (JNumber lit, rest)))"

fun parse_value :: "nat \<Rightarrow> string \<Rightarrow> (json \<times> string) option"
  and parse_elements :: "nat \<Rightarrow> string \<Rightarrow> (json list \<times> string) option"
  and parse_members :: "nat \<Rightarrow> string \<Rightarrow> ((string \<times> json) list \<times> string) option"
where
  "parse_value 0 s = None"
| "parse_value (Suc n) s =
     (case skipSpace s of
        [] \<Rightarrow> None
      | c # cs \<Rightarrow>
          if c = CHR ''{'' then
            (case skipSpace cs of
               [] \<Rightarrow> None
             | d # ds \<Rightarrow>
                 if d = CHR ''}'' then Some (JObject [], ds)
                 else (case parse_members n (d # ds) of
                         None \<Rightarrow> None
                       | Some (ms, rest) \<Rightarrow> Some (JObject ms, rest)))
          else if c = CHR ''['' then
            (case skipSpace cs of
               [] \<Rightarrow> None
             | d # ds \<Rightarrow>
                 if d = CHR '']'' then Some (JArray [], ds)
                 else (case parse_elements n (d # ds) of
                         None \<Rightarrow> None
                       | Some (vs, rest) \<Rightarrow> Some (JArray vs, rest)))
          else scan_scalar (c # cs))"
| "parse_elements 0 s = None"
| "parse_elements (Suc n) s =
     (case parse_value n s of
        None \<Rightarrow> None
      | Some (v, r) \<Rightarrow>
          (case skipSpace r of
             [] \<Rightarrow> None
           | c # cs \<Rightarrow>
               if c = CHR '','' then
                 (case parse_elements n cs of
                    None \<Rightarrow> None
                  | Some (vs, rest) \<Rightarrow> Some (v # vs, rest))
               else if c = CHR '']'' then Some ([v], cs)
               else None))"
| "parse_members 0 s = None"
| "parse_members (Suc n) s =
     (case skipSpace s of
        [] \<Rightarrow> None
      | q # ks \<Rightarrow>
          if q \<noteq> dquote then None
          else
            (case scan_string ks of
               None \<Rightarrow> None
             | Some (key, r) \<Rightarrow>
                 (case skipSpace r of
                    [] \<Rightarrow> None
                  | c # cs \<Rightarrow>
                      if c \<noteq> CHR '':'' then None
                      else
                        (case parse_value n cs of
                           None \<Rightarrow> None
                         | Some (v, r') \<Rightarrow>
                             (case skipSpace r' of
                                [] \<Rightarrow> None
                              | d # ds \<Rightarrow>
                                  if d = CHR '','' then
                                    (case parse_members n ds of
                                       None \<Rightarrow> None
                                     | Some (ms, rest) \<Rightarrow> Some ((key, v) # ms, rest))
                                  else if d = CHR ''}'' then Some ([(key, v)], ds)
                                  else None)))))"

definition json_scan :: "bytes \<Rightarrow> json option" where
  "json_scan s = map_option fst (parse_value (Suc (length s)) s)"

text \<open>
  Storing a JSON value into a target. The library keeps the first error and goes on
  with the rest of the value; \<^verbatim>\<open>null\<close> leaves a target of these kinds as it is.
\<close>

fun or_else :: "string option \<Rightarrow> string option \<Rightarrow> string option" where
  "or_else (Some e) e' = Some e"
| "or_else None e' = e'"

definition digits_value :: "string \<Rightarrow> nat" where
  "digits_value lit = foldl (\<lambda>a c. 10 * a + (of_char c - 48)) 0 lit"

definition unmarshal_uint64 :: "json \<Rightarrow> 64 word \<Rightarrow> 64 word \<times> string option" where
  "unmarshal_uint64 j target =
     (case j of
        JNull \<Rightarrow> (target, None)
      | JNumber lit \<Rightarrow>
          if list_all isDigit lit \<and> digits_value lit < 18446744073709551616
          then (of_nat (digits_value lit), None)
          else (target, Some ''json: cannot unmarshal number into Go value of type uint64'')
      | JBool b \<Rightarrow> (target, Some ''json: cannot unmarshal bool into Go value of type uint64'')
      | JString s \<Rightarrow> (target, Some ''json: cannot unmarshal string into Go value of type uint64'')
      | JArray vs \<Rightarrow> (target, Some ''json: cannot unmarshal array into Go value of type uint64'')
      | JObject ms \<Rightarrow> (target, Some ''json: cannot unmarshal object into Go value of type uint64''))"

definition unmarshal_bool :: "json \<Rightarrow> bool \<Rightarrow> bool \<times> string option" where
  "unmarshal_bool j target =
     (case j of
        JNull \<Rightarrow> (target, None)
      | JBool b \<Rightarrow> (b, None)
      | JNumber lit \<Rightarrow> (target, Some ''json: cannot unmarshal number into Go value of type bool'')
      | JString s \<Rightarrow> (target, Some ''json: cannot unmarshal string into Go value of type bool'')
      | JArray vs \<Rightarrow> (target, Some ''json: cannot unmarshal array into Go value of type bool'')
      | JObject ms \<Rightarrow> (target, Some ''json: cannot unmarshal object into Go value of type bool''))"

text \<open>
  A struct without exported fields, such as \<^verbatim>\<open>bytes.Buffer\<close>: an object is accepted and
  every member of it skipped, any other value but \<^verbatim>\<open>null\<close> is a type error, and the target
  is never written.
\<close>

definition unmarshal_unexported :: "json \<Rightarrow> 'a \<Rightarrow> 'a \<times> string option" where
  "unmarshal_unexported j target =
     (case j of
        JNull \<Rightarrow> (target, None)
      | JObject ms \<Rightarrow> (target, None)
      | JBool b \<Rightarrow> (target, Some ''json: cannot unmarshal bool into Go value of struct type'')
      | JNumber lit \<Rightarrow> (target, Some ''json: cannot unmarshal number into Go value of struct type'')
      | JString s \<Rightarrow> (target, Some ''json: cannot unmarshal string into Go value of struct type'')
      | JArray vs \<Rightarrow> (target, Some ''json: cannot unmarshal array into Go value of struct type''))"

definition syntax_error :: string where
  "syntax_error = ''json: invalid or incomplete value''"

definition json_Decode_uint64 :: "64 word decoder" where
  "json_Decode_uint64 body target =
     (case json_scan body of
        None \<Rightarrow> (target, Some syntax_error)
      | Some j \<Rightarrow> unmarshal_uint64 j target)"

definition json_Decode_Buffer :: "Buffer decoder" where
  "json_Decode_Buffer body target =
     (case json_scan body of
        None \<Rightarrow> (target, Some syntax_error)
      | Some j \<Rightarrow> unmarshal_unexported j target)"

text \<open>
  Modelled from the spec: the reply structs are declared in package \<^verbatim>\<open>raft\<close>, which is not
  part of the transport's source. The spec's scenario shows an append-entries reply as
  \<^verbatim>\<open>{"term":5,"success":true}\<close> and calls the request-vote reply symmetric; the second field of
  the latter is taken to be \<^verbatim>\<open>vote_granted\<close>. Only the functions of this part depend on the
  two records; the transport above is stated for any reply type.
\<close>

record AppendEntriesResponse =
  aer_Term :: "64 word"
  aer_Success :: bool

record RequestVoteResponse =
  rvr_Term :: "64 word"
  rvr_VoteGranted :: bool

definition zero_AppendEntriesResponse :: AppendEntriesResponse where
  "zero_AppendEntriesResponse = \<lparr>aer_Term = 0, aer_Success = False\<rparr>"

definition zero_RequestVoteResponse :: RequestVoteResponse where
  "zero_RequestVoteResponse = \<lparr>rvr_Term = 0, rvr_VoteGranted = False\<rparr>"

text \<open>
  A member of an object goes to the field whose JSON name is its key, compared exactly or
  without regard to the case of ASCII letters; a member with no such field is skipped. Keys
  written with escapes or with letters outside ASCII, which the library unquotes and folds
  before it compares, are not covered: they count as unknown here.
\<close>

definition lower :: "char \<Rightarrow> char" where
  "lower c =
     (case map_of (zip ''ABCDEFGHIJKLMNOPQRSTUVWXYZ'' ''abcdefghijklmnopqrstuvwxyz'') c of
        Some l \<Rightarrow> l
      | None \<Rightarrow> c)"

definition field_matches :: "string \<Rightarrow> string \<Rightarrow> bool" where
  "field_matches name key = (key = name \<or> map lower key = map lower name)"

definition store_aer ::
  "AppendEntriesResponse \<times> string option \<Rightarrow> string \<times> json
     \<Rightarrow> AppendEntriesResponse \<times> string option" where
  "store_aer acc m =
     (case (acc, m) of
        ((t, err), (key, v)) \<Rightarrow>
          if field_matches ''term'' key then
            (case unmarshal_uint64 v (aer_Term t) of (x, e) \<Rightarrow> (t\<lparr>aer_Term := x\<rparr>, or_else err e))
          else if field_matches ''success'' key then
            (case unmarshal_bool v (aer_Success t) of (x, e) \<Rightarrow> (t\<lparr>aer_Success := x\<rparr>, or_else err e))
          else (t, err))"

definition store_rvr ::
  "RequestVoteResponse \<times> string option \<Rightarrow> string \<times> json
     \<Rightarrow> RequestVoteResponse \<times> string option" where
  "store_rvr acc m =
     (case (acc, m) of
        ((t, err), (key, v)) \<Rightarrow>
          if field_matches ''term'' key then
            (case unmarshal_uint64 v (rvr_Term t) of (x, e) \<Rightarrow> (t\<lparr>rvr_Term := x\<rparr>, or_else err e))
          else if field_matches ''vote_granted'' key then
            (case unmarshal_bool v (rvr_VoteGranted t) of
               (x, e) \<Rightarrow> (t\<lparr>rvr_VoteGranted := x\<rparr>, or_else err e))
          else (t, err))"

definition unmarshal_struct ::
  "('a \<times> string option \<Rightarrow> string \<times> json \<Rightarrow> 'a \<times> string option) \<Rightarrow> json \<Rightarrow> 'a
     \<Rightarrow> 'a \<times> string option" where
  "unmarshal_struct store j target =
     (case j of
        JNull \<Rightarrow> (target, None)
      | JObject ms \<Rightarrow> foldl store (target, None) ms
      | JBool b \<Rightarrow> (target, Some ''json: cannot unmarshal bool into Go value of struct type'')
      | JNumber lit \<Rightarrow> (target, Some ''json: cannot unmarshal number into Go value of struct type'')
      | JString s \<Rightarrow> (target, Some ''json: cannot unmarshal string into Go value of struct type'')
      | JArray vs \<Rightarrow> (target, Some ''json: cannot unmarshal array into Go value of struct type''))"

definition json_Decode_AppendEntriesResponse :: "AppendEntriesResponse decoder" where
  "json_Decode_AppendEntriesResponse body target =
     (case json_scan body of
        None \<Rightarrow> (target, Some syntax_error)
      | Some j \<Rightarrow> unmarshal_struct store_aer j target)"

definition json_Decode_RequestVoteResponse :: "RequestVoteResponse decoder" where
  "json_Decode_RequestVoteResponse body target =
     (case json_scan body of
        None \<Rightarrow> (target, Some syntax_error)
      | Some j \<Rightarrow> unmarshal_struct store_rvr j target)"

text \<open>Encoding: the value's JSON text followed by a newline. A struct is written with its
  exported fields in the order of declaration.\<close>

definition bool_literal :: "bool \<Rightarrow> string" where
  "bool_literal b = (if b then ''true'' else ''false'')"

definition quoted :: "string \<Rightarrow> string" where
  "quoted s = dquote # s @ [dquote]"

definition json_Encode_AppendEntriesResponse :: "AppendEntriesResponse encoder" where
  "json_Encode_AppendEntriesResponse r =
     Inr (''{'' @ quoted ''term'' @ '':'' @ decimal (unat (aer_Term r)) @ '',''
            @ quoted ''success'' @ '':'' @ bool_literal (aer_Success r) @ ''}'' @ [newline])"

definition json_Encode_RequestVoteResponse :: "RequestVoteResponse encoder" where
  "json_Encode_RequestVoteResponse r =
     Inr (''{'' @ quoted ''term'' @ '':'' @ decimal (unat (rvr_Term r)) @ '',''
            @ quoted ''vote_granted'' @ '':'' @ bool_literal (rvr_VoteGranted r) @ ''}'' @ [newline])"

text \<open>
  A request struct whose exported fields are all \<^verbatim>\<open>uint64\<close>, given by the JSON name and the
  value of each field in the order of declaration; the payload \<^verbatim>\<open>{"term":5}\<close> of the spec's
  scenario is the struct \<open>[(''term'', 5)]\<close>.
\<close>

type_synonym uint64_struct = "(string \<times> 64 word) list"

fun json_fields :: "uint64_struct \<Rightarrow> string" where
  "json_fields [] = []"
| "json_fields [(k, v)] = quoted k @ '':'' @ decimal (unat v)"
| "json_fields ((k, v) # f # fs) = quoted k @ '':'' @ decimal (unat v) @ '','' @ json_fields (f # fs)"

definition json_Encode_uint64_struct :: "uint64_struct encoder" where
  "json_Encode_uint64_struct m = Inr (''{'' @ json_fields m @ ''}'' @ [newline])"

text \<open>
  A byte slice is written as a string of its base64 encoding (standard alphabet, padded);
  a nil slice, which the library writes as \<^verbatim>\<open>null\<close>, is not told apart from the empty one.
  A value of a type the library cannot encode, such as a channel, is refused.
\<close>

definition b64_alphabet :: string where
  "b64_alphabet = ''ABCDEFGHIJKLMNOPQRSTUVWXYZabcdefghijklmnopqrstuvwxyz0123456789+/''"

definition b64_char :: "nat \<Rightarrow> char" where
  "b64_char n = b64_alphabet ! (n mod 64)"

fun base64 :: "bytes \<Rightarrow> string" where
  "base64 [] = []"
| "base64 [a] =
     (let n = of_char a * 65536
      in [b64_char (n div 262144), b64_char (n div 4096), CHR ''='', CHR ''=''])"
| "base64 [a, b] =
     (let n = of_char a * 65536 + of_char b * 256
      in [b64_char (n div 262144), b64_char (n div 4096), b64_char (n div 64), CHR ''=''])"
| "base64 (a # b # c # rest) =
     (let n = of_char a * 65536 + of_char b * 256 + of_char c
      in [b64_char (n div 262144), b64_char (n div 4096), b64_char (n div 64), b64_char n]
         @ base64 rest)"

definition json_Encode_bytes :: "bytes encoder" where
  "json_Encode_bytes bs = Inr (quoted (base64 bs) @ [newline])"

definition json_Encode_chan :: "chan encoder" where
  "json_Encode_chan c = Inl ''json: unsupported type: chan []uint8''"

text \<open>Decoding into a struct of \<^verbatim>\<open>uint64\<close> fields: the field of a member is the first whose
  name is the key, or else the first whose name is the key up to the case of letters.\<close>

fun index_where :: "('a \<Rightarrow> bool) \<Rightarrow> 'a list \<Rightarrow> nat option" where
  "index_where P [] = None"
| "index_where P (x # xs) = (if P x then Some 0 else map_option Suc (index_where P xs))"

definition field_index :: "string \<Rightarrow> uint64_struct \<Rightarrow> nat option" where
  "field_index key t =
     (case index_where (\<lambda>f. fst f = key) t of
        Some i \<Rightarrow> Some i
      | None \<Rightarrow> index_where (\<lambda>f. map lower (fst f) = map lower key) t)"

definition store_uint64_field ::
  "uint64_struct \<times> string option \<Rightarrow> string \<times> json \<Rightarrow> uint64_struct \<times> string option" where
  "store_uint64_field acc m =
     (case (acc, m) of
        ((t, err), (key, v)) \<Rightarrow>
          (case field_index key t of
             None \<Rightarrow> (t, err)
           | Some i \<Rightarrow>
               (case unmarshal_uint64 v (snd (t ! i)) of
                  (x, e) \<Rightarrow> (t[i := (fst (t ! i), x)], or_else err e))))"

definition json_Decode_uint64_struct :: "uint64_struct decoder" where
  "json_Decode_uint64_struct body target =
     (case json_scan body of
        None \<Rightarrow> (target, Some syntax_error)
      | Some j \<Rightarrow> unmarshal_struct store_uint64_field j target)"

subsection \<open>Concrete traffic\<close>

text \<open>A peer address, a peer, networks that refuse the connection or answer every request
  with a fixed status and body, and an engine around a given command method.\<close>

definition example_url :: URL where
  "example_url =
     \<lparr>Scheme = ''http'', Opaque = '''', User = None, Host = ''10.0.0.2:8080'',
      Path = ''/cluster/members'', RawQuery = '''', Fragment = ''''\<rparr>"

definition example_peer :: HTTPPeer where
  "example_peer = \<lparr>peer_id = 7, peer_url = example_url\<lparr>Path := ''''\<rparr>\<rparr>"

definition net_refused :: network where
  "net_refused req = Inl ''dial tcp 10.0.0.2:8080: connection refused''"

definition net_reply :: "int \<Rightarrow> bytes \<Rightarrow> network" where
  "net_reply code body req = Inr \<lparr>StatusCode = code, Body = body\<rparr>"

definition example_engine ::
  "(bytes \<Rightarrow> string option \<times> chan_op list)
     \<Rightarrow> (uint64_struct, AppendEntriesResponse, uint64_struct, RequestVoteResponse) Server" where
  "example_engine command =
     \<lparr>srv_Id = 7,
      srv_AppendEntries = (\<lambda>ae. \<lparr>aer_Term = 5, aer_Success = True\<rparr>),
      srv_RequestVote = (\<lambda>rv. \<lparr>rvr_Term = 5, rvr_VoteGranted = True\<rparr>),
      srv_Command = command\<rparr>"

definition go_json ::
  "(uint64_struct, AppendEntriesResponse, uint64_struct, RequestVoteResponse) codecs" where
  "go_json =
     \<lparr>enc_ae = json_Encode_uint64_struct,
      dec_aer = json_Decode_AppendEntriesResponse,
      zero_aer = zero_AppendEntriesResponse,
      enc_rv = json_Encode_uint64_struct,
      dec_rvr = json_Decode_RequestVoteResponse,
      zero_rvr = zero_RequestVoteResponse,
      enc_cmd = json_Encode_bytes,
      dec_buf = json_Decode_Buffer\<rparr>"

definition go_globals :: globals where
  "go_globals =
     init json_Encode_AppendEntriesResponse zero_AppendEntriesResponse
          json_Encode_RequestVoteResponse zero_RequestVoteResponse"

section \<open>Properties\<close>

subsection \<open>Evaluation and shared facts\<close>

lemmas json_eval =
  json_scan_def skipSpace_def isSpace_def isDigit_def isHex_def dquote_def backslash_def
  scan_number_def scan_int_def scan_frac_def scan_exp_def scan_scalar_def unmarshal_uint64_def
  unmarshal_bool_def unmarshal_unexported_def unmarshal_struct_def digits_value_def
  syntax_error_def field_matches_def lower_def newline_def quoted_def bool_literal_def
  digit_char_def decimal.simps

lemmas route_defs = IdPath_def AppendEntriesPath_def RequestVotePath_def CommandPath_def

lemmas traffic_defs = example_url_def example_peer_def net_refused_def net_reply_def

lemmas writer_defs =
  new_ResponseWriter_def WriteHeader_def Write_def http_Error_def response_of_def
  StatusOK_def StatusBadRequest_def StatusInternalServerError_def

lemma rpc_peer_same: "rpc_peer (rpc net enc dec p request path response) = p"
  by (simp add: rpc_def Let_def split: sum.split prod.split option.split)

lemma rpc_sent_target:
  "rq \<in> set (rpc_sent (rpc net enc dec p request path response))
     \<Longrightarrow> req_URL rq = (peer_url p)\<lparr>Path := path\<rparr>"
  by (auto simp: rpc_def Let_def split: sum.splits prod.splits option.splits if_splits)

lemma perform_receiver: "fst (perform js net p c) = p"
  by (cases c)
     (simp_all add: perform_def AppendEntries_def RequestVote_def Command_def Let_def rpc_peer_same)

lemma perform_target:
  "rq \<in> set (snd (perform js net p c)) \<Longrightarrow> req_URL rq = (peer_url p)\<lparr>Path := path_of c\<rparr>"
  by (cases c)
     (auto simp: perform_def AppendEntries_def RequestVote_def Command_def Let_def path_of_def
           dest: rpc_sent_target)

lemma requests_of_concat:
  "requests_of js p calls = concat (map (\<lambda>(net, c). snd (perform js net p c)) calls)"
proof (induction calls)
  case Nil
  show ?case by simp
next
  case (Cons a calls)
  obtain net c where a: "a = (net, c)" by (cases a)
  obtain p' rs where pr: "perform js net p c = (p', rs)" by (cases "perform js net p c")
  from pr have "p' = p" using perform_receiver [of js net p c] by simp
  with a pr Cons.IH show ?case by simp
qed

lemma ready_make_chan: "ready (make_chan n) = None"
  by (simp add: ready_def make_chan_def)

lemma recv_first_send: "recv (make_chan n) (ChanSend v # ops) = Some (v, True)"
  by (cases ops) (simp_all add: ready_def make_chan_def)

lemma recv_first_close: "recv (make_chan n) (ChanClose # ops) = Some ([], False)"
  by (cases ops) (simp_all add: ready_def make_chan_def)

lemma json_Decode_Buffer_target: "fst (json_Decode_Buffer body target) = target"
  by (simp add: json_Decode_Buffer_def unmarshal_unexported_def split: option.split json.split)

lemma empty_RequestVote_body:
  \<open>String (emptyRequestVoteResponse go_globals) = ''{"term":0,"vote_granted":false}'' @ [newline]\<close>
  by (simp add: go_globals_def init_def Encode_to_def json_Encode_RequestVoteResponse_def
        zero_RequestVoteResponse_def Buffer_Write_def String_def empty_Buffer_def json_eval)

lemma empty_AppendEntries_body:
  \<open>String (emptyAppendEntriesResponse go_globals) = ''{"term":0,"success":false}'' @ [newline]\<close>
  by (simp add: go_globals_def init_def Encode_to_def json_Encode_AppendEntriesResponse_def
        zero_AppendEntriesResponse_def Buffer_Write_def String_def empty_Buffer_def json_eval)

subsection \<open>The shared rpc primitive\<close>

text \<open>
  C3: for every request, \<^verbatim>\<open>rpc\<close> first encodes it, and an encode failure ends the call with
  the encoding error before anything is sent. Otherwise exactly one request is issued: a
  POST of the encoded payload with content type \<^verbatim>\<open>application/json\<close> to the peer's base
  address with the path replaced by the destination path. A network failure ends the call
  with the transport error; a status other than 200 ends it with the error carrying the
  status code; a decode failure ends it with the decoding error; otherwise the call
  succeeds and the response is the decoded one. The receiver is left as it was.
\<close>

theorem rpc_discipline:
  "let r = rpc net enc dec p request path response;
       post = (\<lambda>b. \<lparr>req_Method = ''POST'', req_URL = (peer_url p)\<lparr>Path := path\<rparr>,
                       req_ContentType = ''application/json'', req_Body = b\<rparr>)
   in rpc_peer r = p \<and>
      (\<forall>e. enc request = Inl e \<longrightarrow>
         rpc_sent r = [] \<and> rpc_err r = Some (EncodeError e) \<and> rpc_response r = response) \<and>
      (\<forall>b. enc request = Inr b \<longrightarrow>
         rpc_sent r = [post b] \<and>
         (\<forall>e. net (post b) = Inl e \<longrightarrow>
            rpc_err r = Some (NetworkError e) \<and> rpc_response r = response) \<and>
         (\<forall>resp. net (post b) = Inr resp \<longrightarrow>
            (StatusCode resp \<noteq> 200 \<longrightarrow>
               rpc_err r = Some (StatusError (StatusCode resp)) \<and> rpc_response r = response) \<and>
            (StatusCode resp = 200 \<longrightarrow>
               (\<forall>r' e. dec (Body resp) response = (r', Some e) \<longrightarrow>
                  rpc_err r = Some (DecodeError e) \<and> rpc_response r = r') \<and>
               (\<forall>r'. dec (Body resp) response = (r', None) \<longrightarrow>
                  rpc_err r = None \<and> rpc_response r = r'))))"
  by (simp add: rpc_def Let_def StatusOK_def split: sum.split prod.split option.split)

theorem rpc_discipline_witness:
  \<open>(let r = rpc net_refused json_Encode_chan json_Decode_Buffer example_peer (make_chan 1)
              CommandPath empty_Buffer
    in rpc_sent r = [] \<and> rpc_err r = Some (EncodeError ''json: unsupported type: chan []uint8''))
   \<and> (let r = rpc net_refused json_Encode_bytes json_Decode_Buffer example_peer ''hi''
                CommandPath empty_Buffer
      in map req_Body (rpc_sent r) = [''"aGk="'' @ [newline]]
         \<and> rpc_err r = Some (NetworkError ''dial tcp 10.0.0.2:8080: connection refused''))
   \<and> (let r = rpc (net_reply 500 [newline]) json_Encode_bytes json_Decode_Buffer example_peer ''hi''
                CommandPath empty_Buffer
      in rpc_err r = Some (StatusError 500) \<and> rpc_response r = empty_Buffer)
   \<and> (let r = rpc (net_reply 200 ''{"term":5,"success":'') json_Encode_uint64_struct
                json_Decode_AppendEntriesResponse example_peer [(''term'', 5)]
                AppendEntriesPath zero_AppendEntriesResponse
      in rpc_err r = Some (DecodeError syntax_error))
   \<and> (let r = rpc (net_reply 200 (''{"term":5,"success":true}'' @ [newline]))
                json_Encode_uint64_struct json_Decode_AppendEntriesResponse example_peer
                [(''term'', 5)] AppendEntriesPath zero_AppendEntriesResponse
      in map (Path \<circ> req_URL) (rpc_sent r) = [''/raft/appendentries'']
         \<and> map req_Body (rpc_sent r) = [''{"term":5}'' @ [newline]]
         \<and> rpc_err r = None
         \<and> rpc_response r = \<lparr>aer_Term = 5, aer_Success = True\<rparr>)\<close>
proof -
  have refused_enc: "json_Encode_chan (make_chan 1) = Inl ''json: unsupported type: chan []uint8''"
    by (simp add: json_Encode_chan_def)
  have hi: \<open>json_Encode_bytes ''hi'' = Inr (''"aGk="'' @ [newline])\<close>
    by (simp add: json_Encode_bytes_def b64_char_def b64_alphabet_def json_eval)
  have term5: \<open>json_Encode_uint64_struct [(''term'', 5)] = Inr (''{"term":5}'' @ [newline])\<close>
    by (simp add: json_Encode_uint64_struct_def json_eval)
  have cut: \<open>json_Decode_AppendEntriesResponse ''{"term":5,"success":'' zero_AppendEntriesResponse
               = (zero_AppendEntriesResponse, Some syntax_error)\<close>
    by (simp add: json_Decode_AppendEntriesResponse_def json_eval)
  have good: \<open>json_Decode_AppendEntriesResponse (''{"term":5,"success":true}'' @ [newline])
                zero_AppendEntriesResponse = (\<lparr>aer_Term = 5, aer_Success = True\<rparr>, None)\<close>
    by (simp add: json_Decode_AppendEntriesResponse_def zero_AppendEntriesResponse_def
          store_aer_def json_eval)
  have a: "let r = rpc net_refused json_Encode_chan json_Decode_Buffer example_peer (make_chan 1)
                     CommandPath empty_Buffer
           in rpc_sent r = [] \<and> rpc_err r = Some (EncodeError ''json: unsupported type: chan []uint8'')"
    using rpc_discipline [where net = net_refused and enc = json_Encode_chan
        and dec = json_Decode_Buffer and p = example_peer and request = "make_chan 1"
        and path = CommandPath and response = empty_Buffer]
    by (simp add: Let_def json_Encode_chan_def)
  have b: \<open>let r = rpc net_refused json_Encode_bytes json_Decode_Buffer example_peer ''hi''
                     CommandPath empty_Buffer
           in map req_Body (rpc_sent r) = [''"aGk="'' @ [newline]]
              \<and> rpc_err r = Some (NetworkError ''dial tcp 10.0.0.2:8080: connection refused'')\<close>
    using rpc_discipline [where net = net_refused and enc = json_Encode_bytes
        and dec = json_Decode_Buffer and p = example_peer and request = "''hi''"
        and path = CommandPath and response = empty_Buffer]
    by (simp add: Let_def hi net_refused_def)
  have c: "let r = rpc (net_reply 500 [newline]) json_Encode_bytes json_Decode_Buffer example_peer
                     ''hi'' CommandPath empty_Buffer
           in rpc_err r = Some (StatusError 500) \<and> rpc_response r = empty_Buffer"
    using rpc_discipline [where net = "net_reply 500 [newline]" and enc = json_Encode_bytes
        and dec = json_Decode_Buffer and p = example_peer and request = "''hi''"
        and path = CommandPath and response = empty_Buffer]
    by (simp add: Let_def hi net_reply_def)
  have d: \<open>let r = rpc (net_reply 200 ''{"term":5,"success":'') json_Encode_uint64_struct
                     json_Decode_AppendEntriesResponse example_peer [(''term'', 5)]
                     AppendEntriesPath zero_AppendEntriesResponse
           in rpc_err r = Some (DecodeError syntax_error)\<close>
    using rpc_discipline [where net = \<open>net_reply 200 ''{"term":5,"success":''\<close>
        and enc = json_Encode_uint64_struct and dec = json_Decode_AppendEntriesResponse
        and p = example_peer and request = "[(''term'', 5)]" and path = AppendEntriesPath
        and response = zero_AppendEntriesResponse]
    by (simp add: Let_def term5 net_reply_def cut)
  have e: \<open>let r = rpc (net_reply 200 (''{"term":5,"success":true}'' @ [newline]))
                     json_Encode_uint64_struct json_Decode_AppendEntriesResponse example_peer
                     [(''term'', 5)] AppendEntriesPath zero_AppendEntriesResponse
           in map (Path \<circ> req_URL) (rpc_sent r) = [''/raft/appendentries'']
              \<and> map req_Body (rpc_sent r) = [''{"term":5}'' @ [newline]]
              \<and> rpc_err r = None
              \<and> rpc_response r = \<lparr>aer_Term = 5, aer_Success = True\<rparr>\<close>
    using rpc_discipline [where net = \<open>net_reply 200 (''{"term":5,"success":true}'' @ [newline])\<close>
        and enc = json_Encode_uint64_struct and dec = json_Decode_AppendEntriesResponse
        and p = example_peer and request = "[(''term'', 5)]" and path = AppendEntriesPath
        and response = zero_AppendEntriesResponse]
    by (simp add: Let_def term5 net_reply_def good [simplified] AppendEntriesPath_def)
  from a b c d e show ?thesis by blast
qed

subsection \<open>Identity resolution\<close>

text \<open>
  C1: the claim is that \<^verbatim>\<open>NewHTTPPeer\<close> fails whenever the status of the identity response is
  not the success status. \<^verbatim>\<open>NewHTTPPeer\<close> never reads the status (\<^verbatim>\<open>rpc\<close> does). Against an
  endpoint without the identity route, which answers 404 with the library's page
  \<^verbatim>\<open>404 page not found\<close>, the decoder reads the number 404 at the start of the body and
  \<^verbatim>\<open>NewHTTPPeer\<close> returns a peer whose identity is 404.
\<close>

theorem NewHTTPPeer_not_found_page:
  "ret (NewHTTPPeer (net_reply 404 (''404 page not found'' @ [newline])) json_Decode_uint64
          example_url)
     = Inr \<lparr>peer_id = 404, peer_url = example_url\<lparr>Path := ''''\<rparr>\<rparr>"
  by (simp add: NewHTTPPeer_def Let_def net_reply_def json_Decode_uint64_def json_eval)

text \<open>
  C5, as stated, fails: an endpoint that serves \<^verbatim>\<open>0\<close> with status 200 is resolved to a peer
  whose identity is zero.
\<close>

theorem NewHTTPPeer_zero_identity_counterexample:
  "ret (NewHTTPPeer (net_reply 200 ''0'') json_Decode_uint64 example_url)
     = Inr \<lparr>peer_id = 0, peer_url = example_url\<lparr>Path := ''''\<rparr>\<rparr>"
  by (simp add: NewHTTPPeer_def Let_def net_reply_def json_Decode_uint64_def json_eval)

text \<open>
  C5, amended: identity resolution issues one GET to the identity path. When the request
  errors (an unreachable address) it returns the transport error, and when the body fails
  to decode it returns the decoding error; in neither case is a peer returned, so no failure
  yields a peer with the zero identity. A peer is returned only when the request succeeded
  and the body decoded without error, and its identity is the value the decoder produced
  from the body (zero when that is what the endpoint serves).
\<close>

theorem NewHTTPPeer_failures:
  "let r = NewHTTPPeer net dec u;
       get = \<lparr>req_Method = ''GET'', req_URL = u\<lparr>Path := IdPath\<rparr>,
              req_ContentType = '''', req_Body = ''''\<rparr>
   in sent r = [get] \<and>
      (\<forall>e. net get = Inl e \<longrightarrow> ret r = Inl (NetworkError e)) \<and>
      (\<forall>resp i e. net get = Inr resp \<and> dec (Body resp) 0 = (i, Some e)
         \<longrightarrow> ret r = Inl (DecodeError e)) \<and>
      (\<forall>p. ret r = Inr p \<longrightarrow>
         (\<exists>resp. net get = Inr resp \<and> dec (Body resp) 0 = (peer_id p, None)))"
  by (auto simp: NewHTTPPeer_def Let_def split: sum.splits prod.splits option.splits)

theorem NewHTTPPeer_failures_witness:
  "ret (NewHTTPPeer net_refused json_Decode_uint64 example_url)
     = Inl (NetworkError ''dial tcp 10.0.0.2:8080: connection refused'')
   \<and> ret (NewHTTPPeer (net_reply 200 ''seven'') json_Decode_uint64 example_url)
       = Inl (DecodeError syntax_error)
   \<and> ret (NewHTTPPeer (net_reply 200 ''7'') json_Decode_uint64 example_url) = Inr example_peer
   \<and> json_Decode_uint64 ''7'' 0 = (peer_id example_peer, None)"
proof -
  have seven: "json_Decode_uint64 ''seven'' 0 = (0, Some syntax_error)"
    by (simp add: json_Decode_uint64_def json_eval)
  have a: "ret (NewHTTPPeer net_refused json_Decode_uint64 example_url)
             = Inl (NetworkError ''dial tcp 10.0.0.2:8080: connection refused'')"
    using NewHTTPPeer_failures [where net = net_refused and dec = json_Decode_uint64
        and u = example_url]
    by (simp add: Let_def net_refused_def)
  have b: "ret (NewHTTPPeer (net_reply 200 ''seven'') json_Decode_uint64 example_url)
             = Inl (DecodeError syntax_error)"
    using NewHTTPPeer_failures [where net = "net_reply 200 ''seven''"
        and dec = json_Decode_uint64 and u = example_url] seven
    by (simp add: Let_def net_reply_def)
  have c: "ret (NewHTTPPeer (net_reply 200 ''7'') json_Decode_uint64 example_url) = Inr example_peer"
    by (simp add: NewHTTPPeer_def Let_def net_reply_def json_Decode_uint64_def example_peer_def
          json_eval)
  have d: "json_Decode_uint64 ''7'' 0 = (peer_id example_peer, None)"
    using NewHTTPPeer_failures [where net = "net_reply 200 ''7''"
        and dec = json_Decode_uint64 and u = example_url] c
    by (simp add: Let_def net_reply_def)
  from a b c d show ?thesis by blast
qed

subsection \<open>The outbound consensus calls\<close>

text \<open>
  C2, as stated, fails for the decode failure: the reply is the one \<^verbatim>\<open>rpc\<close> decoded into, and
  the decoder has stored the fields it could read before it reports the one it could not.
  A response with status 200 and body \<^verbatim>\<open>{"term":5,"success":1}\<close> makes \<^verbatim>\<open>rpc\<close> fail with a
  decoding error, and \<^verbatim>\<open>AppendEntries\<close> returns a reply with term 5.
\<close>

theorem AppendEntries_decode_failure_counterexample:
  \<open>rpc_err (rpc (net_reply 200 ''{"term":5,"success":1}'') json_Encode_uint64_struct
             json_Decode_AppendEntriesResponse example_peer [(''term'', 5)] AppendEntriesPath
             zero_AppendEntriesResponse)
     = Some (DecodeError ''json: cannot unmarshal number into Go value of type bool'')
   \<and> result (AppendEntries (net_reply 200 ''{"term":5,"success":1}'') json_Encode_uint64_struct
               json_Decode_AppendEntriesResponse zero_AppendEntriesResponse example_peer
               [(''term'', 5)])
       = \<lparr>aer_Term = 5, aer_Success = False\<rparr>
   \<and> \<lparr>aer_Term = 5, aer_Success = False\<rparr> \<noteq> zero_AppendEntriesResponse\<close>
  by (simp add: AppendEntries_def rpc_def Let_def net_reply_def StatusOK_def
        json_Encode_uint64_struct_def json_Decode_AppendEntriesResponse_def store_aer_def
        zero_AppendEntriesResponse_def json_eval)

text \<open>
  C2, amended: \<^verbatim>\<open>AppendEntries\<close> and \<^verbatim>\<open>RequestVote\<close> return a reply and no error. When the
  message cannot be encoded, when the network fails, or when the status is not 200, the
  reply is the all-default one. When the status is 200 the reply is the one the decoder
  leaves: the decoded reply on success, and on a decode failure the default reply with
  whatever fields the decoder had stored before it failed.
\<close>

theorem AppendEntries_RequestVote_replies:
  "let post = (\<lambda>path b. \<lparr>req_Method = ''POST'', req_URL = (peer_url p)\<lparr>Path := path\<rparr>,
                           req_ContentType = ''application/json'', req_Body = b\<rparr>);
       a = result (AppendEntries net enc_a dec_a zero_a p ae);
       v = result (RequestVote net enc_v dec_v zero_v p rv)
   in ((\<exists>e. enc_a ae = Inl e) \<longrightarrow> a = zero_a) \<and>
      (\<forall>b. enc_a ae = Inr b \<longrightarrow>
         ((\<exists>e. net (post AppendEntriesPath b) = Inl e) \<longrightarrow> a = zero_a) \<and>
         (\<forall>resp. net (post AppendEntriesPath b) = Inr resp \<longrightarrow>
            (StatusCode resp \<noteq> 200 \<longrightarrow> a = zero_a) \<and>
            (StatusCode resp = 200 \<longrightarrow> a = fst (dec_a (Body resp) zero_a)))) \<and>
      ((\<exists>e. enc_v rv = Inl e) \<longrightarrow> v = zero_v) \<and>
      (\<forall>b. enc_v rv = Inr b \<longrightarrow>
         ((\<exists>e. net (post RequestVotePath b) = Inl e) \<longrightarrow> v = zero_v) \<and>
         (\<forall>resp. net (post RequestVotePath b) = Inr resp \<longrightarrow>
            (StatusCode resp \<noteq> 200 \<longrightarrow> v = zero_v) \<and>
            (StatusCode resp = 200 \<longrightarrow> v = fst (dec_v (Body resp) zero_v))))"
  by (auto simp: AppendEntries_def RequestVote_def rpc_def Let_def StatusOK_def
           split: sum.splits prod.splits option.splits)

theorem AppendEntries_RequestVote_replies_witness:
  \<open>result (AppendEntries net_refused json_Encode_uint64_struct json_Decode_AppendEntriesResponse
            zero_AppendEntriesResponse example_peer [(''term'', 5)])
     = zero_AppendEntriesResponse
   \<and> result (AppendEntries (net_reply 500 (''{"term":0,"success":false}'' @ [newline, newline]))
              json_Encode_uint64_struct json_Decode_AppendEntriesResponse
              zero_AppendEntriesResponse example_peer [(''term'', 5)])
       = zero_AppendEntriesResponse
   \<and> result (AppendEntries (net_reply 200 (''{"term":5,"success":true}'' @ [newline]))
              json_Encode_uint64_struct json_Decode_AppendEntriesResponse
              zero_AppendEntriesResponse example_peer [(''term'', 5)])
       = \<lparr>aer_Term = 5, aer_Success = True\<rparr>
   \<and> result (RequestVote (net_reply 200 (''{"term":6,"vote_granted":true}'' @ [newline]))
              json_Encode_uint64_struct json_Decode_RequestVoteResponse
              zero_RequestVoteResponse example_peer [(''term'', 6), (''candidate_id'', 2)])
       = \<lparr>rvr_Term = 6, rvr_VoteGranted = True\<rparr>
   \<and> result (RequestVote (net_reply 400 (''{"term":0,"vote_granted":false}'' @ [newline, newline]))
              json_Encode_uint64_struct json_Decode_RequestVoteResponse
              zero_RequestVoteResponse example_peer [(''term'', 6), (''candidate_id'', 2)])
       = zero_RequestVoteResponse\<close>
proof -
  have enc5: "\<exists>b. json_Encode_uint64_struct [(''term'', 5)] = Inr b"
    by (simp add: json_Encode_uint64_struct_def)
  have enc6: "\<exists>b. json_Encode_uint64_struct [(''term'', 6), (''candidate_id'', 2)] = Inr b"
    by (simp add: json_Encode_uint64_struct_def)
  have good_a: \<open>json_Decode_AppendEntriesResponse (''{"term":5,"success":true}'' @ [newline])
                  zero_AppendEntriesResponse = (\<lparr>aer_Term = 5, aer_Success = True\<rparr>, None)\<close>
    by (simp add: json_Decode_AppendEntriesResponse_def zero_AppendEntriesResponse_def
          store_aer_def json_eval)
  have good_v: \<open>json_Decode_RequestVoteResponse (''{"term":6,"vote_granted":true}'' @ [newline])
                  zero_RequestVoteResponse = (\<lparr>rvr_Term = 6, rvr_VoteGranted = True\<rparr>, None)\<close>
    by (simp add: json_Decode_RequestVoteResponse_def zero_RequestVoteResponse_def
          store_rvr_def json_eval)
  note inst = AppendEntries_RequestVote_replies [where p = example_peer
      and enc_a = json_Encode_uint64_struct and dec_a = json_Decode_AppendEntriesResponse
      and zero_a = zero_AppendEntriesResponse and ae = "[(''term'', 5)]"
      and enc_v = json_Encode_uint64_struct and dec_v = json_Decode_RequestVoteResponse
      and zero_v = zero_RequestVoteResponse and rv = "[(''term'', 6), (''candidate_id'', 2)]"]
  have a: "result (AppendEntries net_refused json_Encode_uint64_struct
                     json_Decode_AppendEntriesResponse zero_AppendEntriesResponse example_peer
                     [(''term'', 5)]) = zero_AppendEntriesResponse"
    using inst [where net = net_refused] enc5
    by (auto simp: Let_def net_refused_def)
  have b: \<open>result (AppendEntries (net_reply 500 (''{"term":0,"success":false}'' @ [newline, newline]))
                     json_Encode_uint64_struct json_Decode_AppendEntriesResponse
                     zero_AppendEntriesResponse example_peer [(''term'', 5)])
             = zero_AppendEntriesResponse\<close>
    using inst [where net = \<open>net_reply 500 (''{"term":0,"success":false}'' @ [newline, newline])\<close>]
      enc5
    by (auto simp: Let_def net_reply_def)
  have c: \<open>result (AppendEntries (net_reply 200 (''{"term":5,"success":true}'' @ [newline]))
                     json_Encode_uint64_struct json_Decode_AppendEntriesResponse
                     zero_AppendEntriesResponse example_peer [(''term'', 5)])
             = \<lparr>aer_Term = 5, aer_Success = True\<rparr>\<close>
    using inst [where net = \<open>net_reply 200 (''{"term":5,"success":true}'' @ [newline])\<close>]
      enc5 good_a
    by (auto simp: Let_def net_reply_def)
  have d: \<open>result (RequestVote (net_reply 200 (''{"term":6,"vote_granted":true}'' @ [newline]))
                     json_Encode_uint64_struct json_Decode_RequestVoteResponse
                     zero_RequestVoteResponse example_peer [(''term'', 6), (''candidate_id'', 2)])
             = \<lparr>rvr_Term = 6, rvr_VoteGranted = True\<rparr>\<close>
    using inst [where net = \<open>net_reply 200 (''{"term":6,"vote_granted":true}'' @ [newline])\<close>]
      enc6 good_v
    by (auto simp: Let_def net_reply_def)
  have e: \<open>result (RequestVote (net_reply 400 (''{"term":0,"vote_granted":false}'' @ [newline, newline]))
                     json_Encode_uint64_struct json_Decode_RequestVoteResponse
                     zero_RequestVoteResponse example_peer [(''term'', 6), (''candidate_id'', 2)])
             = zero_RequestVoteResponse\<close>
    using inst [where net = \<open>net_reply 400 (''{"term":0,"vote_granted":false}'' @ [newline, newline])\<close>]
      enc6
    by (auto simp: Let_def net_reply_def)
  from a b c d e show ?thesis by blast
qed

subsection \<open>The command path of the client\<close>

text \<open>
  C10: whatever the network, the codec and the payload, the goroutine started by \<^verbatim>\<open>Command\<close>
  issues the requests of one \<^verbatim>\<open>rpc\<close> to the command path and then performs exactly one
  operation on the caller's channel: it sends the bytes of the response buffer as \<^verbatim>\<open>rpc\<close>
  left it, whether \<^verbatim>\<open>rpc\<close> returned an error or not. It never closes the channel.
\<close>

theorem Command_sends_exactly_once:
  "let r = rpc net enc dec p cmd CommandPath empty_Buffer;
       g = snd (result (Command net enc dec p cmd))
   in go_sent g = rpc_sent r \<and>
      go_ops g = [ChanSend (Bytes (rpc_response r))] \<and>
      ChanClose \<notin> set (go_ops g)"
  by (simp add: Command_def Let_def)

text \<open>
  C6: \<^verbatim>\<open>Command\<close> returns \<^verbatim>\<open>nil\<close> at once, as claimed, but the reply of the remote server never
  reaches the channel. \<^verbatim>\<open>rpc\<close> decodes the response body as JSON into a \<^verbatim>\<open>bytes.Buffer\<close>, a
  struct without exported fields, which the decoder never writes. The command route of the
  server answers with the raw reply bytes; when it answers 200 with the body \<^verbatim>\<open>done\<close>, the
  goroutine sends the empty byte sequence.
\<close>

theorem Command_reply_lost:
  "let c = Command (net_reply 200 ''done'') json_Encode_bytes json_Decode_Buffer example_peer
             ''set x 1''
   in fst (result c) = None \<and>
      map (Path \<circ> req_URL) (go_sent (snd (result c))) = [''/raft/command''] \<and>
      go_ops (snd (result c)) = [ChanSend []]"
  by (simp add: Command_def rpc_def Let_def net_reply_def StatusOK_def json_Encode_bytes_def
        json_Decode_Buffer_def Bytes_def empty_Buffer_def CommandPath_def json_eval)

text \<open>With this decoder the same holds for every network, encoder, peer and payload.\<close>

lemma json_Decode_Buffer_keeps: "json_Decode_Buffer body target = (t, e) \<Longrightarrow> t = target"
  using json_Decode_Buffer_target [of body target] by simp

lemma Command_json_sends_empty:
  "go_ops (snd (result (Command net enc json_Decode_Buffer p cmd))) = [ChanSend []]"
proof -
  have "rpc_response (rpc net enc json_Decode_Buffer p cmd CommandPath empty_Buffer) = empty_Buffer"
    by (auto simp: rpc_def Let_def split: sum.splits prod.splits option.splits
             dest: json_Decode_Buffer_keeps)
  then show ?thesis
    by (simp add: Command_def Let_def Bytes_def empty_Buffer_def)
qed

subsection \<open>The address of a peer\<close>

text \<open>
  C9: a peer that \<^verbatim>\<open>NewHTTPPeer\<close> returns stores an address with the empty path. Every call
  on it (append-entries, request-vote, command) leaves the peer as it was, and every
  request the call issues goes to the stored address with the path replaced by the fixed
  path of the call's kind. So the requests of a sequence of calls are those that each call
  issues on the peer as constructed: none inherits a path from construction or from an
  earlier call.
\<close>

theorem peer_path_overwritten:
  assumes "ret (NewHTTPPeer net0 dec0 u) = Inr p"
  shows "Path (peer_url p) = '''' \<and>
         (\<forall>net c. fst (perform js net p c) = p \<and>
            (\<forall>rq \<in> set (snd (perform js net p c)).
               req_URL rq = (peer_url p)\<lparr>Path := path_of c\<rparr>)) \<and>
         requests_of js p calls = concat (map (\<lambda>(net, c). snd (perform js net p c)) calls) \<and>
         (\<forall>rq \<in> set (requests_of js p calls).
            \<exists>(net, c) \<in> set calls. req_URL rq = (peer_url p)\<lparr>Path := path_of c\<rparr>)"
proof -
  from assms have "peer_url p = u\<lparr>Path := ''''\<rparr>"
    by (auto simp: NewHTTPPeer_def Let_def split: sum.splits prod.splits option.splits)
  then have empty: "Path (peer_url p) = ''''" by simp
  have each: "\<forall>net c. fst (perform js net p c) = p \<and>
                (\<forall>rq \<in> set (snd (perform js net p c)).
                   req_URL rq = (peer_url p)\<lparr>Path := path_of c\<rparr>)"
    using perform_receiver perform_target by blast
  have seq: "requests_of js p calls = concat (map (\<lambda>(net, c). snd (perform js net p c)) calls)"
    by (rule requests_of_concat)
  have all: "\<forall>rq \<in> set (requests_of js p calls).
               \<exists>(net, c) \<in> set calls. req_URL rq = (peer_url p)\<lparr>Path := path_of c\<rparr>"
    unfolding seq using perform_target by fastforce
  from empty each seq all show ?thesis by blast
qed

theorem peer_path_overwritten_witness:
  \<open>ret (NewHTTPPeer (net_reply 200 ''7'') json_Decode_uint64 example_url) = Inr example_peer
   \<and> Path example_url = ''/cluster/members''
   \<and> Path (peer_url example_peer) = ''''
   \<and> map (Path \<circ> req_URL)
        (requests_of go_json example_peer
           [(net_reply 200 (''{"term":5,"success":true}'' @ [newline]), CallAppendEntries [(''term'', 5)]),
            (net_refused, CallCommand ''hi''),
            (net_reply 500 [newline], CallRequestVote [(''term'', 6), (''candidate_id'', 2)])])
       = [''/raft/appendentries'', ''/raft/command'', ''/raft/requestvote'']\<close>
proof -
  have made: "ret (NewHTTPPeer (net_reply 200 ''7'') json_Decode_uint64 example_url) = Inr example_peer"
    by (simp add: NewHTTPPeer_def Let_def net_reply_def json_Decode_uint64_def example_peer_def
          json_eval)
  note inst = peer_path_overwritten [OF made, where js = go_json]
  have stripped: "Path (peer_url example_peer) = ''''"
    using inst by blast
  have seq: \<open>requests_of go_json example_peer
           [(net_reply 200 (''{"term":5,"success":true}'' @ [newline]), CallAppendEntries [(''term'', 5)]),
            (net_refused, CallCommand ''hi''),
            (net_reply 500 [newline], CallRequestVote [(''term'', 6), (''candidate_id'', 2)])]
        = snd (perform go_json (net_reply 200 (''{"term":5,"success":true}'' @ [newline]))
                 example_peer (CallAppendEntries [(''term'', 5)]))
          @ snd (perform go_json net_refused example_peer (CallCommand ''hi''))
          @ snd (perform go_json (net_reply 500 [newline]) example_peer
                   (CallRequestVote [(''term'', 6), (''candidate_id'', 2)]))\<close>
    using inst [where calls = \<open>[(net_reply 200 (''{"term":5,"success":true}'' @ [newline]),
                                  CallAppendEntries [(''term'', 5)]),
                                 (net_refused, CallCommand ''hi''),
                                 (net_reply 500 [newline],
                                  CallRequestVote [(''term'', 6), (''candidate_id'', 2)])]\<close>]
    by simp
  have p1: \<open>map (Path \<circ> req_URL)
              (snd (perform go_json (net_reply 200 (''{"term":5,"success":true}'' @ [newline]))
                      example_peer (CallAppendEntries [(''term'', 5)])))
            = [''/raft/appendentries'']\<close>
    by (simp add: perform_def AppendEntries_def rpc_def Let_def go_json_def net_reply_def
          json_Encode_uint64_struct_def StatusOK_def AppendEntriesPath_def
          split: prod.split option.split)
  have p2: "map (Path \<circ> req_URL)
              (snd (perform go_json net_refused example_peer (CallCommand ''hi'')))
            = [''/raft/command'']"
    by (simp add: perform_def Command_def rpc_def Let_def go_json_def net_refused_def
          json_Encode_bytes_def CommandPath_def)
  have p3: "map (Path \<circ> req_URL)
              (snd (perform go_json (net_reply 500 [newline]) example_peer
                      (CallRequestVote [(''term'', 6), (''candidate_id'', 2)])))
            = [''/raft/requestvote'']"
    by (simp add: perform_def RequestVote_def rpc_def Let_def go_json_def net_reply_def
          json_Encode_uint64_struct_def StatusOK_def RequestVotePath_def)
  have paths: \<open>map (Path \<circ> req_URL)
        (requests_of go_json example_peer
           [(net_reply 200 (''{"term":5,"success":true}'' @ [newline]), CallAppendEntries [(''term'', 5)]),
            (net_refused, CallCommand ''hi''),
            (net_reply 500 [newline], CallRequestVote [(''term'', 6), (''candidate_id'', 2)])])
       = [''/raft/appendentries'', ''/raft/command'', ''/raft/requestvote'']\<close>
    unfolding seq using p1 p2 p3 by simp
  have orig: "Path example_url = ''/cluster/members''"
    by (simp add: example_url_def)
  from made orig stripped paths show ?thesis by blast
qed

subsection \<open>The command route of the server\<close>

text \<open>
  C4: the claim is that the failure responses of the command handler carry an empty body.
  That is what the handler sets out to do: its comment says that errors are reported
  \<^verbatim>\<open>with an empty response\<close>, and it passes the empty message to \<^verbatim>\<open>http.Error\<close>. But
  \<^verbatim>\<open>http.Error\<close> ends the message with a newline. When the engine accepts the command
  \<^verbatim>\<open>set x 1\<close> and closes the reply channel without a value, the response is 500 with a body
  of one newline, not the empty body.
\<close>

theorem commandHandler_closed_channel_body:
  "map_option response_of
     (commandHandler (NewHTTPServer (example_engine (\<lambda>cmd. (None, [ChanClose]))))
        \<lparr>r_Body = Inr ''set x 1''\<rparr> new_ResponseWriter)
     = Some \<lparr>StatusCode = 500, Body = [newline]\<rparr>
   \<and> Some \<lparr>StatusCode = 500, Body = [newline]\<rparr> \<noteq> Some \<lparr>StatusCode = 500, Body = []\<rparr>"
  by (simp add: commandHandler_def NewHTTPServer_def example_engine_def ReadAll_def Let_def
        ready_def make_chan_def writer_defs)

text \<open>
  What the handler does answer, for every request to the command route on a fresh response
  writer. The statuses are those of the claim, and a value that is the first thing to
  arrive on the reply channel is the body of a 200 response, byte for byte. Each of the
  three failure responses (the body cannot be read, the engine rejects the submission, the
  channel is closed before any value) carries the one newline.
\<close>

lemma commandHandler_responses:
  "let out = map_option response_of (commandHandler s r new_ResponseWriter)
   in ((\<exists>e. r_Body r = Inl e) \<longrightarrow> out = Some \<lparr>StatusCode = 400, Body = [newline]\<rparr>) \<and>
      (\<forall>cmd. r_Body r = Inr cmd \<longrightarrow>
         (\<forall>e ops. srv_Command (server s) cmd = (Some e, ops)
            \<longrightarrow> out = Some \<lparr>StatusCode = 500, Body = [newline]\<rparr>) \<and>
         (\<forall>v ops. srv_Command (server s) cmd = (None, ChanSend v # ops)
            \<longrightarrow> out = Some \<lparr>StatusCode = 200, Body = v\<rparr>) \<and>
         (\<forall>ops. srv_Command (server s) cmd = (None, ChanClose # ops)
            \<longrightarrow> out = Some \<lparr>StatusCode = 500, Body = [newline]\<rparr>))"
  by (auto simp: commandHandler_def ReadAll_def Let_def recv_first_send recv_first_close
        writer_defs simp del: recv.simps)

lemma commandHandler_responses_examples:
  "map_option response_of
     (commandHandler (NewHTTPServer (example_engine (\<lambda>cmd. (None, [ChanSend (''ok: '' @ cmd)]))))
        \<lparr>r_Body = Inl ''unexpected EOF''\<rparr> new_ResponseWriter)
     = Some \<lparr>StatusCode = 400, Body = [newline]\<rparr>
   \<and> map_option response_of
       (commandHandler (NewHTTPServer (example_engine (\<lambda>cmd. (Some ''not the leader'', []))))
          \<lparr>r_Body = Inr ''set x 1''\<rparr> new_ResponseWriter)
       = Some \<lparr>StatusCode = 500, Body = [newline]\<rparr>
   \<and> map_option response_of
       (commandHandler (NewHTTPServer (example_engine (\<lambda>cmd. (None, [ChanSend (''ok: '' @ cmd)]))))
          \<lparr>r_Body = Inr ''set x 1''\<rparr> new_ResponseWriter)
       = Some \<lparr>StatusCode = 200, Body = ''ok: set x 1''\<rparr>
   \<and> map_option response_of
       (commandHandler (NewHTTPServer (example_engine (\<lambda>cmd. (None, [ChanClose, ChanClose]))))
          \<lparr>r_Body = Inr ''set x 1''\<rparr> new_ResponseWriter)
       = Some \<lparr>StatusCode = 500, Body = [newline]\<rparr>"
proof -
  have a: "map_option response_of
     (commandHandler (NewHTTPServer (example_engine (\<lambda>cmd. (None, [ChanSend (''ok: '' @ cmd)]))))
        \<lparr>r_Body = Inl ''unexpected EOF''\<rparr> new_ResponseWriter)
     = Some \<lparr>StatusCode = 400, Body = [newline]\<rparr>"
    using commandHandler_responses
      [where s = "NewHTTPServer (example_engine (\<lambda>cmd. (None, [ChanSend (''ok: '' @ cmd)])))"
         and r = "\<lparr>r_Body = Inl ''unexpected EOF''\<rparr>"]
    by (simp add: Let_def)
  have b: "map_option response_of
       (commandHandler (NewHTTPServer (example_engine (\<lambda>cmd. (Some ''not the leader'', []))))
          \<lparr>r_Body = Inr ''set x 1''\<rparr> new_ResponseWriter)
       = Some \<lparr>StatusCode = 500, Body = [newline]\<rparr>"
    using commandHandler_responses
      [where s = "NewHTTPServer (example_engine (\<lambda>cmd. (Some ''not the leader'', [])))"
         and r = "\<lparr>r_Body = Inr ''set x 1''\<rparr>"]
    by (simp add: Let_def NewHTTPServer_def example_engine_def)
  have c: "map_option response_of
       (commandHandler (NewHTTPServer (example_engine (\<lambda>cmd. (None, [ChanSend (''ok: '' @ cmd)]))))
          \<lparr>r_Body = Inr ''set x 1''\<rparr> new_ResponseWriter)
       = Some \<lparr>StatusCode = 200, Body = ''ok: set x 1''\<rparr>"
    using commandHandler_responses
      [where s = "NewHTTPServer (example_engine (\<lambda>cmd. (None, [ChanSend (''ok: '' @ cmd)])))"
         and r = "\<lparr>r_Body = Inr ''set x 1''\<rparr>"]
    by (simp add: Let_def NewHTTPServer_def example_engine_def)
  have d: "map_option response_of
       (commandHandler (NewHTTPServer (example_engine (\<lambda>cmd. (None, [ChanClose, ChanClose]))))
          \<lparr>r_Body = Inr ''set x 1''\<rparr> new_ResponseWriter)
       = Some \<lparr>StatusCode = 500, Body = [newline]\<rparr>"
    using commandHandler_responses
      [where s = "NewHTTPServer (example_engine (\<lambda>cmd. (None, [ChanClose, ChanClose])))"
         and r = "\<lparr>r_Body = Inr ''set x 1''\<rparr>"]
    by (simp add: Let_def NewHTTPServer_def example_engine_def)
  from a b c d show ?thesis by blast
qed

text \<open>While the engine neither writes nor closes the channel, the handler does not respond.\<close>

lemma commandHandler_waits:
  "r_Body r = Inr cmd \<Longrightarrow> srv_Command (server s) cmd = (None, [])
     \<Longrightarrow> commandHandler s r w = None"
  by (simp add: commandHandler_def ReadAll_def Let_def ready_make_chan)

subsection \<open>The empty replies\<close>

text \<open>
  C7: the two buffers that \<^verbatim>\<open>init\<close> fills hold the encodings of the zero replies, and each
  decodes without error into the reply whose fields are all defaults, whatever the target
  held before. When the body of a request to the request-vote route does not decode, the
  handler responds with status 400 and a body (the buffer's text and the newline of
  \<^verbatim>\<open>http.Error\<close>) that decodes without error into the all-default request-vote reply.
\<close>

theorem empty_replies_decode:
  "json_Decode_AppendEntriesResponse (String (emptyAppendEntriesResponse go_globals)) ta
     = (zero_AppendEntriesResponse, None)
   \<and> json_Decode_RequestVoteResponse (String (emptyRequestVoteResponse go_globals)) tv
       = (zero_RequestVoteResponse, None)
   \<and> ((\<exists>e. snd (Decode_from dec (r_Body r) zero) = Some e) \<longrightarrow>
        (let resp = response_of (requestVoteHandler go_globals dec zero enc s r new_ResponseWriter)
         in StatusCode resp = 400 \<and>
            json_Decode_RequestVoteResponse (Body resp) tv = (zero_RequestVoteResponse, None)))"
proof -
  have a: "json_Decode_AppendEntriesResponse (String (emptyAppendEntriesResponse go_globals)) ta
             = (zero_AppendEntriesResponse, None)"
    by (simp add: empty_AppendEntries_body json_Decode_AppendEntriesResponse_def store_aer_def
          zero_AppendEntriesResponse_def json_eval)
  have v: "json_Decode_RequestVoteResponse (String (emptyRequestVoteResponse go_globals)) tv
             = (zero_RequestVoteResponse, None)"
    by (simp add: empty_RequestVote_body json_Decode_RequestVoteResponse_def store_rvr_def
          zero_RequestVoteResponse_def json_eval)
  have v': "json_Decode_RequestVoteResponse
              (String (emptyRequestVoteResponse go_globals) @ [newline]) tv
             = (zero_RequestVoteResponse, None)"
    by (simp add: empty_RequestVote_body json_Decode_RequestVoteResponse_def store_rvr_def
          zero_RequestVoteResponse_def json_eval)
  have h: "(\<exists>e. snd (Decode_from dec (r_Body r) zero) = Some e) \<longrightarrow>
        (let resp = response_of (requestVoteHandler go_globals dec zero enc s r new_ResponseWriter)
         in StatusCode resp = 400 \<and>
            json_Decode_RequestVoteResponse (Body resp) tv = (zero_RequestVoteResponse, None))"
    using v'
    by (auto simp: requestVoteHandler_def Let_def writer_defs split: prod.splits option.splits)
  from a v h show ?thesis by blast
qed

theorem empty_replies_decode_witness:
  \<open>snd (Decode_from json_Decode_uint64_struct (r_Body \<lparr>r_Body = Inr ''{"term":6,"candidate_id"''\<rparr>)
          [(''term'', 0), (''candidate_id'', 0)]) = Some syntax_error
   \<and> response_of
       (requestVoteHandler go_globals json_Decode_uint64_struct
          [(''term'', 0), (''candidate_id'', 0)] json_Encode_RequestVoteResponse
          (NewHTTPServer (example_engine (\<lambda>cmd. (None, []))))
          \<lparr>r_Body = Inr ''{"term":6,"candidate_id"''\<rparr> new_ResponseWriter)
       = \<lparr>StatusCode = 400, Body = ''{"term":0,"vote_granted":false}'' @ [newline, newline]\<rparr>
   \<and> json_Decode_RequestVoteResponse (''{"term":0,"vote_granted":false}'' @ [newline, newline])
        \<lparr>rvr_Term = 9, rvr_VoteGranted = True\<rparr>
       = (zero_RequestVoteResponse, None)\<close>
proof -
  have cut: \<open>Decode_from json_Decode_uint64_struct (Inr ''{"term":6,"candidate_id"'')
                [(''term'', 0), (''candidate_id'', 0)]
              = ([(''term'', 0), (''candidate_id'', 0)], Some syntax_error)\<close>
    by (simp add: Decode_from_def json_Decode_uint64_struct_def json_eval)
  then have bad: \<open>snd (Decode_from json_Decode_uint64_struct
                    (r_Body \<lparr>r_Body = Inr ''{"term":6,"candidate_id"''\<rparr>)
                    [(''term'', 0), (''candidate_id'', 0)]) = Some syntax_error\<close>
    by simp
  have resp: \<open>response_of
       (requestVoteHandler go_globals json_Decode_uint64_struct
          [(''term'', 0), (''candidate_id'', 0)] json_Encode_RequestVoteResponse
          (NewHTTPServer (example_engine (\<lambda>cmd. (None, []))))
          \<lparr>r_Body = Inr ''{"term":6,"candidate_id"''\<rparr> new_ResponseWriter)
       = \<lparr>StatusCode = 400, Body = ''{"term":0,"vote_granted":false}'' @ [newline, newline]\<rparr>\<close>
    by (simp add: requestVoteHandler_def cut empty_RequestVote_body writer_defs)
  have dec: \<open>json_Decode_RequestVoteResponse (''{"term":0,"vote_granted":false}'' @ [newline, newline])
        \<lparr>rvr_Term = 9, rvr_VoteGranted = True\<rparr>
       = (zero_RequestVoteResponse, None)\<close>
    using empty_replies_decode
      [where dec = json_Decode_uint64_struct and zero = "[(''term'', 0), (''candidate_id'', 0)]"
         and r = \<open>\<lparr>r_Body = Inr ''{"term":6,"candidate_id"''\<rparr>\<close>
         and enc = json_Encode_RequestVoteResponse
         and s = "NewHTTPServer (example_engine (\<lambda>cmd. (None, [])))"
         and tv = "\<lparr>rvr_Term = 9, rvr_VoteGranted = True\<rparr>"]
      bad resp
    by (simp add: Let_def)
  from bad resp dec show ?thesis by blast
qed

end
